theory Spec2Isabelle
  imports Main
begin

section \<open>JavaScript values\<close>

text \<open>
  The validator of \<^verbatim>\<open>timer.ts\<close> stores a parameter of type \<^verbatim>\<open>any\<close>, so the
  model needs the run-time values of the language. Numbers carry an integer payload, with
  \<open>JNaN\<close> apart because it is the one value that is not strictly equal to itself; an
  object is an opaque reference. The code compares the stored value only with the
  literals \<^verbatim>\<open>undefined\<close>, \<^verbatim>\<open>null\<close>, \<^verbatim>\<open>true\<close> and \<^verbatim>\<open>false\<close>, so the payloads of
  numbers, strings and objects never decide a comparison.
\<close>

datatype jsval =
    JUndefined
  | JNull
  | JBool bool
  | JNum int
  | JNaN
  | JStr string
  | JObj nat

text \<open>The operator \<^verbatim>\<open>===\<close>: same type and same value, \<^verbatim>\<open>NaN\<close> equal to nothing.\<close>

definition strict_eq :: "jsval \<Rightarrow> jsval \<Rightarrow> bool" where
  "strict_eq a b = (a \<noteq> JNaN \<and> a = b)"

text \<open>The abstract operation ToBoolean, as a conditional applies it to its operand.\<close>

fun ToBoolean :: "jsval \<Rightarrow> bool" where
  "ToBoolean JUndefined = False"
| "ToBoolean JNull = False"
| "ToBoolean (JBool b) = b"
| "ToBoolean (JNum n) = (n \<noteq> 0)"
| "ToBoolean JNaN = False"
| "ToBoolean (JStr s) = (s \<noteq> [])"
| "ToBoolean (JObj r) = True"

datatype error = Error string

section \<open>BaseParameterValidator\<close>

text \<open>
  The two private fields \<^verbatim>\<open>_currentParam\<close> and \<^verbatim>\<open>_currentAnswer\<close>; an identifier
  cannot start with an underscore here, so the leading underscore is written \<open>priv_\<close>.
\<close>

record BaseParameterValidator =
  priv_currentParam :: jsval
  priv_currentAnswer :: bool

text \<open>\<^verbatim>\<open>private get current(): any { return this._currentParam; }\<close>\<close>

definition current :: "BaseParameterValidator \<Rightarrow> jsval" where
  "current this = priv_currentParam this"

text \<open>
  \<^verbatim>\<open>private set answer(result: boolean) { this._currentAnswer = result; }\<close>
  The class declares this setter and no getter for \<^verbatim>\<open>answer\<close>. Assigning to
  \<^verbatim>\<open>this.answer\<close> runs the setter (\<open>set_answer\<close>); reading \<^verbatim>\<open>this.answer\<close> finds an
  accessor property whose getter is absent, and such a read evaluates to
  \<^verbatim>\<open>undefined\<close> (\<open>answer\<close>), whatever \<^verbatim>\<open>_currentAnswer\<close> holds.
\<close>

definition set_answer :: "bool \<Rightarrow> BaseParameterValidator \<Rightarrow> BaseParameterValidator" where
  "set_answer result this = this\<lparr>priv_currentAnswer := result\<rparr>"

definition answer :: "BaseParameterValidator \<Rightarrow> jsval" where
  "answer this = JUndefined"

text \<open>\<^verbatim>\<open>private get break(): boolean { return this.answer === false; }\<close>\<close>

definition break :: "BaseParameterValidator \<Rightarrow> bool" where
  "break this = strict_eq (answer this) (JBool False)"

text \<open>
  The constructor: the field initialisers run first (\<^verbatim>\<open>undefined\<close>, \<^verbatim>\<open>false\<close>), then
  the body stores the parameter and sets the answer to \<^verbatim>\<open>true\<close>.
\<close>

definition BParamVal :: "jsval \<Rightarrow> BaseParameterValidator" where
  "BParamVal param =
     (let this = \<lparr>priv_currentParam = JUndefined, priv_currentAnswer = False\<rparr>;
          this = this\<lparr>priv_currentParam := param\<rparr>
      in this\<lparr>priv_currentAnswer := True\<rparr>)"

text \<open>The five predicate methods; each returns \<^verbatim>\<open>this\<close>, here the updated instance.\<close>

definition isSet :: "BaseParameterValidator \<Rightarrow> BaseParameterValidator" where
  "isSet this =
     (if \<not> break this then set_answer (\<not> strict_eq (current this) JUndefined) this
      else this)"

definition isNotNull :: "BaseParameterValidator \<Rightarrow> BaseParameterValidator" where
  "isNotNull this =
     (if \<not> break this then set_answer (\<not> strict_eq (current this) JNull) this
      else this)"

definition isBoolean :: "BaseParameterValidator \<Rightarrow> BaseParameterValidator" where
  "isBoolean this =
     (if \<not> break this
      then set_answer (strict_eq (current this) (JBool True)
                       \<or> strict_eq (current this) (JBool False)) this
      else this)"

definition isTrue :: "BaseParameterValidator \<Rightarrow> BaseParameterValidator" where
  "isTrue this =
     (if \<not> break this then set_answer (strict_eq (current this) (JBool True)) this
      else this)"

definition isFalse :: "BaseParameterValidator \<Rightarrow> BaseParameterValidator" where
  "isFalse this =
     (if \<not> break this then set_answer (strict_eq (current this) (JBool False)) this
      else this)"

text \<open>
  \<^verbatim>\<open>public valueOf(): boolean { return this.answer; }\<close>
  The declared return type is \<^verbatim>\<open>boolean\<close>; what the body evaluates is the read of
  \<^verbatim>\<open>answer\<close>, so the model's result type is a value of the language.
\<close>

definition valueOf :: "BaseParameterValidator \<Rightarrow> jsval" where
  "valueOf this = answer this"

subsection \<open>Chains of predicate calls\<close>

datatype predicate = IsSet | IsNotNull | IsBoolean | IsTrue | IsFalse

fun apply_predicate :: "predicate \<Rightarrow> BaseParameterValidator \<Rightarrow> BaseParameterValidator" where
  "apply_predicate IsSet this = isSet this"
| "apply_predicate IsNotNull this = isNotNull this"
| "apply_predicate IsBoolean this = isBoolean this"
| "apply_predicate IsTrue this = isTrue this"
| "apply_predicate IsFalse this = isFalse this"

text \<open>\<^verbatim>\<open>v.p1().p2()...pn()\<close>: the calls from left to right on the same instance.\<close>

fun chain :: "predicate list \<Rightarrow> BaseParameterValidator \<Rightarrow> BaseParameterValidator" where
  "chain [] this = this"
| "chain (p # ps) this = chain ps (apply_predicate p this)"

text \<open>
  A method call as a computation that either returns or throws. None of the five bodies
  has a \<^verbatim>\<open>throw\<close>, and the operations they are made of (reads and writes of properties
  of \<^verbatim>\<open>this\<close>, strict comparisons) cannot throw, so every call returns.
\<close>

fun call :: "predicate \<Rightarrow> BaseParameterValidator \<Rightarrow> error + BaseParameterValidator" where
  "call p this = Inr (apply_predicate p this)"

fun call_all :: "predicate list \<Rightarrow> BaseParameterValidator \<Rightarrow> error + BaseParameterValidator" where
  "call_all [] this = Inr this"
| "call_all (p # ps) this =
     (case call p this of Inl e \<Rightarrow> Inl e | Inr this' \<Rightarrow> call_all ps this')"

text \<open>
  The result of one predicate on its own: the stored verdict of a fresh validator of \<open>v\<close>
  after that single call.
\<close>

definition independent :: "predicate \<Rightarrow> jsval \<Rightarrow> bool" where
  "independent p v = priv_currentAnswer (apply_predicate p (BParamVal v))"

section \<open>TimeEntry\<close>

record TimeEntry =
  priv_started :: int
  priv_stopped :: int
  priv_marker :: "string option"

definition ready :: "TimeEntry \<Rightarrow> bool" where
  "ready this = (priv_started this = 0 \<and> priv_stopped this = priv_started this)"

definition running :: "TimeEntry \<Rightarrow> bool" where
  "running this = (priv_started this > 0 \<and> priv_stopped this = 0)"

definition stopped :: "TimeEntry \<Rightarrow> bool" where
  "stopped this = (priv_started this > 0 \<and> priv_stopped this \<ge> priv_started this)"

text \<open>
  \<^verbatim>\<open>marker || null\<close> and \<^verbatim>\<open>marker || this._marker\<close> on a string: the empty string is
  the only falsy one.
\<close>

definition marker_or :: "string \<Rightarrow> string option \<Rightarrow> string option" where
  "marker_or marker other = (if marker \<noteq> [] then Some marker else other)"

text \<open>
  The operand of the conditional in the constructor is what \<^verbatim>\<open>strt.isBoolean().isTrue()\<close>
  returns: the validator instance, an object. A conditional applies ToBoolean to its
  operand, which is \<^verbatim>\<open>true\<close> for every object and never consults \<^verbatim>\<open>valueOf\<close>.
\<close>

definition condition :: "BaseParameterValidator \<Rightarrow> bool" where
  "condition this = ToBoolean (JObj 0)"

text \<open>
  The constructor. Every read of the clock is a parameter of the model: \<open>now\<close> is what
  \<^verbatim>\<open>Date.now()\<close> returns when the call evaluates it.
\<close>

definition new_TimeEntry :: "string \<Rightarrow> jsval \<Rightarrow> int \<Rightarrow> TimeEntry" where
  "new_TimeEntry marker start_flag now =
     (let this = \<lparr>priv_started = 0, priv_stopped = 0, priv_marker = None\<rparr>;
          strt = BParamVal start_flag;
          this = this\<lparr>priv_marker := marker_or marker None\<rparr>
      in this\<lparr>priv_started :=
                (if condition (isTrue (isBoolean strt)) then now else priv_started this)\<rparr>)"

text \<open>The methods return their result and the updated instance.\<close>

definition start :: "string \<Rightarrow> int \<Rightarrow> TimeEntry \<Rightarrow> int \<times> TimeEntry" where
  "start marker now this =
     (let this = this\<lparr>priv_marker := marker_or marker (priv_marker this)\<rparr>;
          this = this\<lparr>priv_started := now\<rparr>
      in (priv_started this, this))"

definition stop :: "int \<Rightarrow> TimeEntry \<Rightarrow> int \<times> TimeEntry" where
  "stop now this =
     (let this = this\<lparr>priv_stopped := (if running this then now else priv_stopped this)\<rparr>
      in (priv_stopped this, this))"

definition reset :: "TimeEntry \<Rightarrow> TimeEntry" where
  "reset this = this\<lparr>priv_started := 0, priv_stopped := 0, priv_marker := None\<rparr>"

text \<open>\<^verbatim>\<open>throw new Error("Method not implemented.")\<close> is the whole body.\<close>

definition elapsed :: "TimeEntry \<Rightarrow> error + int" where
  "elapsed this = Inl (Error ''Method not implemented.'')"

subsection \<open>Sequences of operations\<close>

datatype operation = Start string | Stop | Reset

text \<open>An event is an operation with the clock reading of its call.\<close>

fun step :: "TimeEntry \<Rightarrow> operation \<times> int \<Rightarrow> TimeEntry" where
  "step this (Start marker, now) = snd (start marker now this)"
| "step this (Stop, now) = snd (stop now this)"
| "step this (Reset, now) = reset this"

fun exec :: "TimeEntry \<Rightarrow> (operation \<times> int) list \<Rightarrow> TimeEntry" where
  "exec this [] = this"
| "exec this (ev # evs) = exec (step this ev) evs"

text \<open>The invariant of the data model: a recorded stop is not before the start.\<close>

definition stop_after_start :: "TimeEntry \<Rightarrow> bool" where
  "stop_after_start this =
     (priv_stopped this \<noteq> 0 \<longrightarrow> priv_stopped this \<ge> priv_started this)"

text \<open>Every \<open>Start\<close> of the sequence meets an entry with no recorded stop.\<close>

fun starts_unstopped :: "TimeEntry \<Rightarrow> (operation \<times> int) list \<Rightarrow> bool" where
  "starts_unstopped this [] = True"
| "starts_unstopped this (ev # evs) =
     ((case fst ev of Start marker \<Rightarrow> priv_stopped this = 0 | _ \<Rightarrow> True)
      \<and> starts_unstopped (step this ev) evs)"

section \<open>The validator chain\<close>

text \<open>
  The getter \<open>break\<close> compares the read of \<open>answer\<close>, which is \<^verbatim>\<open>undefined\<close>, with
  \<^verbatim>\<open>false\<close>: it is false in every state, so no predicate body is ever skipped.
\<close>

lemma break_never: "break this = False"
  by (simp add: break_def answer_def strict_eq_def)

lemma apply_predicate_param:
  "priv_currentParam (apply_predicate p this) = priv_currentParam this"
  by (cases p)
     (simp_all add: isSet_def isNotNull_def isBoolean_def isTrue_def isFalse_def
                    set_answer_def)

lemma chain_param: "priv_currentParam (chain ps this) = priv_currentParam this"
  by (induction ps arbitrary: this) (simp_all add: apply_predicate_param)

lemma BParamVal_fields:
  "priv_currentParam (BParamVal v) = v" "priv_currentAnswer (BParamVal v) = True"
  by (simp_all add: BParamVal_def)

text \<open>Each call overwrites the stored verdict with the result of its own test.\<close>

lemma apply_predicate_verdict:
  "priv_currentAnswer (apply_predicate p this) = independent p (priv_currentParam this)"
  by (cases p)
     (simp_all add: independent_def isSet_def isNotNull_def isBoolean_def isTrue_def
                    isFalse_def set_answer_def break_never current_def BParamVal_def)

lemma chain_snoc: "chain (ps @ [p]) this = apply_predicate p (chain ps this)"
  by (induction ps arbitrary: this) simp_all

text \<open>So the stored verdict after a chain is the result of its last predicate alone.\<close>

lemma chain_last_wins:
  "priv_currentAnswer (chain (ps @ [p]) (BParamVal v)) = independent p v"
  by (simp add: chain_snoc apply_predicate_verdict chain_param BParamVal_fields)

lemma call_all_returns: "call_all ps this = Inr (chain ps this)"
  by (induction ps arbitrary: this) simp_all

text \<open>
  C2 (the chain's result is the conjunction of the predicates' independent results).
  The code does not do this. On the value \<^verbatim>\<open>false\<close> the chain
  \<^verbatim>\<open>isTrue().isBoolean()\<close> has a failing first predicate, so the conjunction is false;
  yet the stored verdict ends \<^verbatim>\<open>true\<close> (the second call is not skipped and overwrites
  it), and \<^verbatim>\<open>valueOf()\<close> returns \<^verbatim>\<open>undefined\<close>, no boolean at all.
\<close>

theorem chain_not_conjunction:
  "list_all (\<lambda>p. independent p (JBool False)) [IsTrue, IsBoolean] = False
   \<and> priv_currentAnswer (chain [IsTrue, IsBoolean] (BParamVal (JBool False))) = True
   \<and> valueOf (chain [IsTrue, IsBoolean] (BParamVal (JBool False))) = JUndefined"
  by (simp add: independent_def isBoolean_def isTrue_def set_answer_def break_never
                current_def BParamVal_def strict_eq_def valueOf_def answer_def)

text \<open>
  C4 (the stored verdict never goes from false back to true within one chain).
  The code does not keep this. On the value \<^verbatim>\<open>false\<close>, \<^verbatim>\<open>isTrue()\<close> stores
  \<^verbatim>\<open>false\<close> and the following \<^verbatim>\<open>isBoolean()\<close> stores \<^verbatim>\<open>true\<close>.
\<close>

theorem verdict_raised_again:
  "priv_currentAnswer (chain [IsTrue] (BParamVal (JBool False))) = False
   \<and> priv_currentAnswer (apply_predicate IsBoolean (chain [IsTrue] (BParamVal (JBool False))))
       = True"
  by (simp add: isBoolean_def isTrue_def set_answer_def break_never current_def
                BParamVal_def strict_eq_def)

text \<open>
  What each call returns, for a validator in any state: the instance with the verdict
  replaced by the method's test of the stored value, and nothing else changed.
\<close>

lemma strict_eq_literal:
  "strict_eq v JUndefined = (v = JUndefined)"
  "strict_eq v JNull = (v = JNull)"
  "strict_eq v (JBool b) = (v = JBool b)"
  by (auto simp add: strict_eq_def)

lemma call_results:
  "call IsSet this = Inr (this\<lparr>priv_currentAnswer := (current this \<noteq> JUndefined)\<rparr>)"
  "call IsNotNull this = Inr (this\<lparr>priv_currentAnswer := (current this \<noteq> JNull)\<rparr>)"
  "call IsBoolean this =
     Inr (this\<lparr>priv_currentAnswer := (current this = JBool True \<or> current this = JBool False)\<rparr>)"
  "call IsTrue this = Inr (this\<lparr>priv_currentAnswer := (current this = JBool True)\<rparr>)"
  "call IsFalse this = Inr (this\<lparr>priv_currentAnswer := (current this = JBool False)\<rparr>)"
  by (simp_all add: isSet_def isNotNull_def isBoolean_def isTrue_def isFalse_def
                    set_answer_def break_never strict_eq_literal)

text \<open>
  C8 (no predicate method throws; a value that fails the test only makes the verdict
  false). Every call, and every sequence of calls, returns and does not throw. Each
  method returns the instance with the verdict set to its test of the stored value. So
  on a validator in any state: \<^verbatim>\<open>isSet()\<close> on \<^verbatim>\<open>undefined\<close>, \<^verbatim>\<open>isNotNull()\<close> on
  \<^verbatim>\<open>null\<close>, \<^verbatim>\<open>isBoolean()\<close> on a value that is neither \<^verbatim>\<open>true\<close> nor \<^verbatim>\<open>false\<close>,
  \<^verbatim>\<open>isTrue()\<close> on a value other than \<^verbatim>\<open>true\<close> and \<^verbatim>\<open>isFalse()\<close> on a value other
  than \<^verbatim>\<open>false\<close> each return the instance with the verdict \<^verbatim>\<open>false\<close>.
\<close>

theorem predicates_never_throw:
  "(\<forall>e. call p this \<noteq> Inl e)
   \<and> (\<forall>e. call_all ps this \<noteq> Inl e)
   \<and> call IsSet this = Inr (this\<lparr>priv_currentAnswer := (current this \<noteq> JUndefined)\<rparr>)
   \<and> call IsNotNull this = Inr (this\<lparr>priv_currentAnswer := (current this \<noteq> JNull)\<rparr>)
   \<and> call IsBoolean this =
        Inr (this\<lparr>priv_currentAnswer :=
                    (current this = JBool True \<or> current this = JBool False)\<rparr>)
   \<and> call IsTrue this = Inr (this\<lparr>priv_currentAnswer := (current this = JBool True)\<rparr>)
   \<and> call IsFalse this = Inr (this\<lparr>priv_currentAnswer := (current this = JBool False)\<rparr>)
   \<and> (current this = JUndefined
        \<longrightarrow> call IsSet this = Inr (this\<lparr>priv_currentAnswer := False\<rparr>))
   \<and> (current this = JNull
        \<longrightarrow> call IsNotNull this = Inr (this\<lparr>priv_currentAnswer := False\<rparr>))
   \<and> (current this \<noteq> JBool True \<and> current this \<noteq> JBool False
        \<longrightarrow> call IsBoolean this = Inr (this\<lparr>priv_currentAnswer := False\<rparr>))
   \<and> (current this \<noteq> JBool True
        \<longrightarrow> call IsTrue this = Inr (this\<lparr>priv_currentAnswer := False\<rparr>))
   \<and> (current this \<noteq> JBool False
        \<longrightarrow> call IsFalse this = Inr (this\<lparr>priv_currentAnswer := False\<rparr>))"
proof -
  have "\<forall>e. call p this \<noteq> Inl e"
    by simp
  moreover have "\<forall>e. call_all ps this \<noteq> Inl e"
    by (simp add: call_all_returns)
  ultimately show ?thesis
    by (simp only: call_results) simp
qed

theorem predicates_never_throw_witness:
  "current (BParamVal JUndefined) = JUndefined
   \<and> call IsSet (BParamVal JUndefined)
       = Inr \<lparr>priv_currentParam = JUndefined, priv_currentAnswer = False\<rparr>
   \<and> current (BParamVal JNull) = JNull
   \<and> call IsNotNull (BParamVal JNull)
       = Inr \<lparr>priv_currentParam = JNull, priv_currentAnswer = False\<rparr>
   \<and> current (BParamVal (JNum 1)) \<noteq> JBool True
   \<and> current (BParamVal (JNum 1)) \<noteq> JBool False
   \<and> call IsBoolean (BParamVal (JNum 1))
       = Inr \<lparr>priv_currentParam = JNum 1, priv_currentAnswer = False\<rparr>
   \<and> current (BParamVal (JStr ''true'')) \<noteq> JBool True
   \<and> call IsTrue (BParamVal (JStr ''true''))
       = Inr \<lparr>priv_currentParam = JStr ''true'', priv_currentAnswer = False\<rparr>
   \<and> current (BParamVal (JBool True)) \<noteq> JBool False
   \<and> call IsFalse (BParamVal (JBool True))
       = Inr \<lparr>priv_currentParam = JBool True, priv_currentAnswer = False\<rparr>
   \<and> call_all [IsSet, IsNotNull, IsBoolean] (BParamVal JNaN) \<noteq> Inl (Error '''')"
  using predicates_never_throw [of IsSet "BParamVal JUndefined" "[]"]
    predicates_never_throw [of IsNotNull "BParamVal JNull" "[]"]
    predicates_never_throw [of IsBoolean "BParamVal (JNum 1)" "[]"]
    predicates_never_throw [of IsTrue "BParamVal (JStr ''true'')" "[]"]
    predicates_never_throw
      [of IsFalse "BParamVal (JBool True)" "[IsSet, IsNotNull, IsBoolean]"]
    predicates_never_throw [of IsSet "BParamVal JNaN" "[IsSet, IsNotNull, IsBoolean]"]
  by (simp add: current_def BParamVal_def)

text \<open>
  C10 (\<^verbatim>\<open>valueOf()\<close> never returns the stored verdict). After any sequence of
  predicate calls on a validator of any value, \<^verbatim>\<open>valueOf()\<close> is \<^verbatim>\<open>undefined\<close>, which
  is not the boolean held in \<^verbatim>\<open>_currentAnswer\<close>.
\<close>

theorem valueOf_undefined:
  "valueOf (chain ps (BParamVal v)) = JUndefined
   \<and> valueOf (chain ps (BParamVal v)) \<noteq> JBool (priv_currentAnswer (chain ps (BParamVal v)))"
  by (simp add: valueOf_def answer_def)

section \<open>The time entry\<close>

lemma condition_always: "condition this = True"
  by (simp add: condition_def)

lemma new_TimeEntry_fields:
  "priv_started (new_TimeEntry marker start_flag now) = now"
  "priv_stopped (new_TimeEntry marker start_flag now) = 0"
  "priv_marker (new_TimeEntry marker start_flag now) = marker_or marker None"
  by (simp_all add: new_TimeEntry_def condition_always)

text \<open>
  C1 (the constructor starts the entry if and only if the flag is strictly \<^verbatim>\<open>true\<close>).
  The code does not do this. For \<^verbatim>\<open>new TimeEntry("x", false)\<close> with the clock at 1000
  the validator's stored verdict is \<^verbatim>\<open>false\<close>, and still the entry has
  \<^verbatim>\<open>_started = 1000\<close>: it is running, not ready.
\<close>

theorem constructor_false_flag_runs:
  "priv_currentAnswer (isTrue (isBoolean (BParamVal (JBool False)))) = False
   \<and> priv_started (new_TimeEntry ''x'' (JBool False) 1000) = 1000
   \<and> running (new_TimeEntry ''x'' (JBool False) 1000)
   \<and> \<not> ready (new_TimeEntry ''x'' (JBool False) 1000)"
  by (simp add: new_TimeEntry_fields running_def ready_def isBoolean_def isTrue_def
                set_answer_def break_never current_def BParamVal_def strict_eq_def)

text \<open>
  C9 (the constructor starts the entry whatever the flag). For every marker and every
  start argument the condition of the constructor holds, so \<^verbatim>\<open>_started\<close> is the clock
  reading; with a positive reading the new entry is running and not ready.
\<close>

theorem constructor_always_starts:
  "condition (isTrue (isBoolean (BParamVal start_flag)))
   \<and> priv_started (new_TimeEntry marker start_flag now) = now
   \<and> (0 < now \<longrightarrow> running (new_TimeEntry marker start_flag now)
                   \<and> \<not> ready (new_TimeEntry marker start_flag now))"
  by (simp add: new_TimeEntry_fields condition_always running_def ready_def)

theorem constructor_always_starts_witness:
  "(0::int) < 42
   \<and> priv_started (new_TimeEntry ''job'' JNull 42) = 42
   \<and> running (new_TimeEntry ''job'' JNull 42)
   \<and> \<not> ready (new_TimeEntry ''job'' JNull 42)"
  using constructor_always_starts [of JNull "''job''" 42] by simp

text \<open>
  C7 (the three derived states exclude each other). Whatever the two timestamps, no two
  of \<open>ready\<close>, \<open>running\<close> and \<open>stopped\<close> hold together.
\<close>

theorem states_exclusive:
  "\<not> (ready this \<and> running this) \<and> \<not> (ready this \<and> stopped this)
   \<and> \<not> (running this \<and> stopped this)"
  by (auto simp add: ready_def running_def stopped_def)

text \<open>
  C6 (\<^verbatim>\<open>stop()\<close>). On a running entry \<^verbatim>\<open>stop()\<close> stores the clock reading in
  \<^verbatim>\<open>_stopped\<close> and returns it, changing nothing else. On any other entry it returns the
  old \<^verbatim>\<open>_stopped\<close> and changes nothing; so a ready entry stays ready with
  \<^verbatim>\<open>_stopped = 0\<close>, and on a stopped entry a second \<^verbatim>\<open>stop()\<close> after a first still
  finds the entry as it was.
\<close>

theorem stop_spec:
  "(running this \<longrightarrow> stop now this = (now, this\<lparr>priv_stopped := now\<rparr>))
   \<and> (\<not> running this \<longrightarrow> stop now this = (priv_stopped this, this))
   \<and> (ready this \<longrightarrow> priv_stopped (snd (stop now this)) = 0 \<and> ready (snd (stop now this)))
   \<and> (stopped this \<longrightarrow> stop now' (snd (stop now this)) = (priv_stopped this, this))"
  by (auto simp add: stop_def Let_def ready_def running_def stopped_def)

theorem stop_spec_witness:
  "running (new_TimeEntry ''x'' (JBool True) 1000)
   \<and> stop 1500 (new_TimeEntry ''x'' (JBool True) 1000)
       = (1500, \<lparr>priv_started = 1000, priv_stopped = 1500, priv_marker = Some ''x''\<rparr>)
   \<and> stopped \<lparr>priv_started = 1000, priv_stopped = 1500, priv_marker = Some ''x''\<rparr>
   \<and> \<not> running \<lparr>priv_started = 1000, priv_stopped = 1500, priv_marker = Some ''x''\<rparr>
   \<and> stop 1700 (snd (stop 1600
          \<lparr>priv_started = 1000, priv_stopped = 1500, priv_marker = Some ''x''\<rparr>))
       = (1500, \<lparr>priv_started = 1000, priv_stopped = 1500, priv_marker = Some ''x''\<rparr>)
   \<and> ready (reset (new_TimeEntry ''x'' (JBool True) 1000))
   \<and> priv_stopped (snd (stop 1600 (reset (new_TimeEntry ''x'' (JBool True) 1000)))) = 0"
  using stop_spec [of "new_TimeEntry ''x'' (JBool True) 1000" 1500 0]
    stop_spec [of "\<lparr>priv_started = 1000, priv_stopped = 1500, priv_marker = Some ''x''\<rparr>"
                  1600 1700]
    stop_spec [of "reset (new_TimeEntry ''x'' (JBool True) 1000)" 1600 0]
  by (simp add: new_TimeEntry_def condition_always marker_or_def running_def stopped_def
                ready_def reset_def stop_def)

text \<open>
  C5 (\<^verbatim>\<open>elapsed()\<close> returns the duration of a running or stopped entry). The code does
  not do this: the body is an unconditional \<^verbatim>\<open>throw\<close>. The entry started at 1000 and
  stopped at 1500 is stopped, and \<^verbatim>\<open>elapsed()\<close> throws instead of returning 500.
\<close>

theorem elapsed_not_implemented:
  "stopped (exec (new_TimeEntry ''x'' (JBool True) 1000) [(Stop, 1500)])
   \<and> priv_started (exec (new_TimeEntry ''x'' (JBool True) 1000) [(Stop, 1500)]) = 1000
   \<and> priv_stopped (exec (new_TimeEntry ''x'' (JBool True) 1000) [(Stop, 1500)]) = 1500
   \<and> elapsed (exec (new_TimeEntry ''x'' (JBool True) 1000) [(Stop, 1500)])
       = Inl (Error ''Method not implemented.'')"
  by (simp add: new_TimeEntry_def condition_always marker_or_def stop_def running_def
                stopped_def elapsed_def)

subsection \<open>The invariant over sequences of operations\<close>

text \<open>
  One operation keeps the invariant, and keeps a positive start time at or below the
  clock, when the clock has not gone back since the last reading \<open>t\<close> and a \<open>Start\<close>
  meets no recorded stop.
\<close>

lemma step_keeps_invariant:
  assumes "stop_after_start this"
    and "0 < priv_started this \<longrightarrow> priv_started this \<le> t"
    and "t \<le> snd ev"
    and "case fst ev of Start marker \<Rightarrow> priv_stopped this = 0 | _ \<Rightarrow> True"
  shows "stop_after_start (step this ev)
         \<and> (0 < priv_started (step this ev) \<longrightarrow> priv_started (step this ev) \<le> snd ev)"
proof (cases ev)
  case (Pair op now)
  with assms show ?thesis
    by (cases op)
       (auto simp add: stop_after_start_def start_def stop_def reset_def running_def Let_def)
qed

lemma exec_keeps_invariant:
  "stop_after_start this \<Longrightarrow> (0 < priv_started this \<longrightarrow> priv_started this \<le> t)
   \<Longrightarrow> sorted (t # map snd evs) \<Longrightarrow> starts_unstopped this evs
   \<Longrightarrow> stop_after_start (exec this evs)"
proof (induction evs arbitrary: this t)
  case Nil
  then show ?case by simp
next
  case (Cons ev evs)
  from Cons.prems have le: "t \<le> snd ev" and sorted': "sorted (snd ev # map snd evs)"
    by simp_all
  from Cons.prems have guard: "case fst ev of Start marker \<Rightarrow> priv_stopped this = 0 | _ \<Rightarrow> True"
    and rest: "starts_unstopped (step this ev) evs"
    by simp_all
  from step_keeps_invariant [OF Cons.prems(1) Cons.prems(2) le guard]
  have "stop_after_start (step this ev)"
    and "0 < priv_started (step this ev) \<longrightarrow> priv_started (step this ev) \<le> snd ev"
    by simp_all
  from Cons.IH [OF this sorted' rest] show ?case by simp
qed

lemma new_TimeEntry_invariant: "stop_after_start (new_TimeEntry marker start_flag t0)"
  by (simp add: stop_after_start_def new_TimeEntry_fields)

text \<open>
  C3 as the claim states it (in every state reached by construct, start, stop and reset a
  nonzero \<^verbatim>\<open>_stopped\<close> is at least \<^verbatim>\<open>_started\<close>) fails. \<^verbatim>\<open>start()\<close> overwrites
  \<^verbatim>\<open>_started\<close> and keeps \<^verbatim>\<open>_stopped\<close>: construct at 1000, stop at 1500, start at 2000
  leaves \<^verbatim>\<open>_stopped = 1500 < 2000 = _started\<close>. And \<^verbatim>\<open>stop()\<close> stores whatever the
  clock reads: construct at 1000 and stop at a reading of 500 leaves
  \<^verbatim>\<open>_stopped = 500 < 1000 = _started\<close>.
\<close>

theorem stop_after_start_counterexample:
  "\<not> stop_after_start
        (exec (new_TimeEntry ''x'' (JBool True) 1000) [(Stop, 1500), (Start '''', 2000)])
   \<and> \<not> stop_after_start (exec (new_TimeEntry ''x'' (JBool True) 1000) [(Stop, 500)])"
  by (simp add: stop_after_start_def new_TimeEntry_def condition_always marker_or_def
                start_def stop_def running_def)

text \<open>
  C3, amended. With clock readings that never decrease, a nonzero \<^verbatim>\<open>_stopped\<close> is at
  least \<^verbatim>\<open>_started\<close> in every state reached from the constructor by \<^verbatim>\<open>stop()\<close>,
  \<^verbatim>\<open>reset()\<close> and by \<^verbatim>\<open>start()\<close> called only while \<^verbatim>\<open>_stopped\<close> is 0. Operation by
  operation: \<^verbatim>\<open>reset()\<close> establishes the invariant, \<^verbatim>\<open>stop()\<close> keeps it when the clock
  reads at least \<^verbatim>\<open>_started\<close>, and \<^verbatim>\<open>start()\<close> keeps it on an entry whose
  \<^verbatim>\<open>_stopped\<close> is 0.
\<close>

theorem stop_after_start_reachable:
  "(sorted (t0 # map snd evs) \<and> starts_unstopped (new_TimeEntry marker start_flag t0) evs
      \<longrightarrow> stop_after_start (exec (new_TimeEntry marker start_flag t0) evs))
   \<and> stop_after_start (reset this)
   \<and> (stop_after_start this \<and> priv_started this \<le> now
        \<longrightarrow> stop_after_start (snd (stop now this)))
   \<and> (priv_stopped this = 0 \<longrightarrow> stop_after_start (snd (start m now this)))"
proof -
  have "stop_after_start (exec (new_TimeEntry marker start_flag t0) evs)"
    if clock: "sorted (t0 # map snd evs)"
      and guard: "starts_unstopped (new_TimeEntry marker start_flag t0) evs"
  proof (rule exec_keeps_invariant [where t = t0])
    show "stop_after_start (new_TimeEntry marker start_flag t0)"
      by (rule new_TimeEntry_invariant)
    show "0 < priv_started (new_TimeEntry marker start_flag t0)
          \<longrightarrow> priv_started (new_TimeEntry marker start_flag t0) \<le> t0"
      by (simp add: new_TimeEntry_fields)
    show "sorted (t0 # map snd evs)"
      by (rule clock)
    show "starts_unstopped (new_TimeEntry marker start_flag t0) evs"
      by (rule guard)
  qed
  moreover have "stop_after_start (reset this)"
    by (simp add: stop_after_start_def reset_def)
  moreover have "stop_after_start (snd (stop now this))"
    if "stop_after_start this" "priv_started this \<le> now"
    using that by (simp add: stop_after_start_def stop_def running_def)
  moreover have "stop_after_start (snd (start m now this))" if "priv_stopped this = 0"
    using that by (simp add: stop_after_start_def start_def)
  ultimately show ?thesis by blast
qed

theorem stop_after_start_reachable_witness:
  "sorted (1000 # map snd [(Stop, 1500), (Reset, 1600), (Start ''y'', 1700), (Stop, 1800::int)])
   \<and> starts_unstopped (new_TimeEntry ''x'' (JBool True) 1000)
        [(Stop, 1500), (Reset, 1600), (Start ''y'', 1700), (Stop, 1800)]
   \<and> priv_stopped (exec (new_TimeEntry ''x'' (JBool True) 1000)
        [(Stop, 1500), (Reset, 1600), (Start ''y'', 1700), (Stop, 1800)]) = 1800
   \<and> priv_started (exec (new_TimeEntry ''x'' (JBool True) 1000)
        [(Stop, 1500), (Reset, 1600), (Start ''y'', 1700), (Stop, 1800)]) = 1700
   \<and> stop_after_start (exec (new_TimeEntry ''x'' (JBool True) 1000)
        [(Stop, 1500), (Reset, 1600), (Start ''y'', 1700), (Stop, 1800)])
   \<and> stop_after_start (new_TimeEntry ''x'' (JBool True) 1000)
   \<and> priv_started (new_TimeEntry ''x'' (JBool True) 1000) \<le> 1500
   \<and> stop_after_start (snd (stop 1500 (new_TimeEntry ''x'' (JBool True) 1000)))
   \<and> priv_stopped (reset (new_TimeEntry ''x'' (JBool True) 1000)) = 0
   \<and> stop_after_start (snd (start ''y'' 1700 (reset (new_TimeEntry ''x'' (JBool True) 1000))))"
  using stop_after_start_reachable
      [of 1000 "[(Stop, 1500), (Reset, 1600), (Start ''y'', 1700), (Stop, 1800)]"
          "''x''" "JBool True" "new_TimeEntry ''x'' (JBool True) 1000" 1500]
    stop_after_start_reachable
      [of 0 "[]" "''x''" "JBool True" "reset (new_TimeEntry ''x'' (JBool True) 1000)"
          1700 "''y''"]
  by (simp add: stop_after_start_def new_TimeEntry_def condition_always marker_or_def
                start_def stop_def reset_def running_def)

end
